theory Spec2Isabelle
  imports Main
begin

section \<open>Python values and the operations the transformer applies to them\<close>

text \<open>
  The fetch response and the events in it are JSON-shaped Python values. A dict is an
  association list with string keys (JSON object keys are strings); lookup takes the
  first binding of a key.
\<close>

datatype pyval =
    PNone
  | PBool bool
  | PInt int
  | PStr string
  | PList "pyval list"
  | PDict "(string \<times> pyval) list"

text \<open>
  An f-string is kept as its fragments: literal text and the values formatted into it.
  \<open>f"Event type {event_type} not supported, yet..."\<close> is
  \<open>[Lit ''Event type '', Fmt event_type, Lit '' not supported, yet...'']\<close>.
\<close>

datatype fragment = Lit string | Fmt pyval

text \<open>
  The exceptions that can leave the transformer. \<open>ValueError\<close> is the only class the
  module raises itself; \<open>TypeError\<close>, \<open>AttributeError\<close> and \<open>KeyError\<close> come from the
  interpreter (their message text is not kept, the key of a \<open>KeyError\<close> is);
  \<open>Raised\<close> is any exception raised inside a collaborator (fetch client, parser,
  record constructor, persistence operation), identified by a description.
\<close>

datatype exn =
    ValueError "fragment list"
  | TypeError
  | AttributeError
  | KeyError pyval
  | Raised string

text \<open>\<open>needle in haystack\<close> for two strings is the substring test.\<close>

fun starts_with :: "string \<Rightarrow> string \<Rightarrow> bool" where
  "starts_with [] s = True"
| "starts_with (p # ps) [] = False"
| "starts_with (p # ps) (c # cs) = (p = c \<and> starts_with ps cs)"

fun contains_str :: "string \<Rightarrow> string \<Rightarrow> bool" where
  "contains_str p [] = (p = [])"
| "contains_str p (c # cs) = (starts_with p (c # cs) \<or> contains_str p cs)"

text \<open>
  \<open>key in container\<close> for a string key: key membership for a dict, element equality
  for a list, substring for a string; the other values are not iterable.
\<close>

fun py_contains :: "pyval \<Rightarrow> string \<Rightarrow> exn + bool" where
  "py_contains (PDict kvs) k = Inr (k \<in> set (map fst kvs))"
| "py_contains (PList xs) k = Inr (PStr k \<in> set xs)"
| "py_contains (PStr s) k = Inr (contains_str k s)"
| "py_contains PNone k = Inl TypeError"
| "py_contains (PBool b) k = Inl TypeError"
| "py_contains (PInt i) k = Inl TypeError"

text \<open>
  \<open>container[key]\<close> for a string key: the bound value of a dict or \<open>KeyError\<close>; a list
  and a string take integer indices only; the other values are not subscriptable.
\<close>

fun py_getitem :: "pyval \<Rightarrow> string \<Rightarrow> exn + pyval" where
  "py_getitem (PDict kvs) k =
     (case map_of kvs k of None \<Rightarrow> Inl (KeyError (PStr k)) | Some v \<Rightarrow> Inr v)"
| "py_getitem (PList xs) k = Inl TypeError"
| "py_getitem (PStr s) k = Inl TypeError"
| "py_getitem PNone k = Inl TypeError"
| "py_getitem (PBool b) k = Inl TypeError"
| "py_getitem (PInt i) k = Inl TypeError"

text \<open>
  \<open>for event in response\<close>: the items of a list, the keys of a dict, the characters
  of a string.
\<close>

fun py_iter :: "pyval \<Rightarrow> exn + pyval list" where
  "py_iter (PList xs) = Inr xs"
| "py_iter (PDict kvs) = Inr (map (\<lambda>kv. PStr (fst kv)) kvs)"
| "py_iter (PStr s) = Inr (map (\<lambda>c. PStr [c]) s)"
| "py_iter PNone = Inl TypeError"
| "py_iter (PBool b) = Inl TypeError"
| "py_iter (PInt i) = Inl TypeError"

text \<open>\<open>event.get(key)\<close>: only a dict has the method; a missing key gives \<open>None\<close>.\<close>

fun py_get :: "pyval \<Rightarrow> string \<Rightarrow> exn + pyval" where
  "py_get (PDict kvs) k =
     (case map_of kvs k of None \<Rightarrow> Inr PNone | Some v \<Rightarrow> Inr v)"
| "py_get (PList xs) k = Inl AttributeError"
| "py_get (PStr s) k = Inl AttributeError"
| "py_get PNone k = Inl AttributeError"
| "py_get (PBool b) k = Inl AttributeError"
| "py_get (PInt i) k = Inl AttributeError"

text \<open>
  \<open>value in mapping\<close> for a dict with string keys: the value is hashed first, so a
  list or a dict raises \<open>TypeError\<close>; a string is looked up; nothing else is a key.
\<close>

fun py_in_keys :: "pyval \<Rightarrow> (string \<times> 'a) list \<Rightarrow> exn + bool" where
  "py_in_keys (PStr s) m = Inr (s \<in> set (map fst m))"
| "py_in_keys PNone m = Inr False"
| "py_in_keys (PBool b) m = Inr False"
| "py_in_keys (PInt i) m = Inr False"
| "py_in_keys (PList xs) m = Inl TypeError"
| "py_in_keys (PDict kvs) m = Inl TypeError"

text \<open>\<open>mapping[value]\<close> for a dict with string keys.\<close>

fun py_lookup :: "(string \<times> 'a) list \<Rightarrow> pyval \<Rightarrow> exn + 'a" where
  "py_lookup m (PStr s) =
     (case map_of m s of None \<Rightarrow> Inl (KeyError (PStr s)) | Some v \<Rightarrow> Inr v)"
| "py_lookup m PNone = Inl (KeyError PNone)"
| "py_lookup m (PBool b) = Inl (KeyError (PBool b))"
| "py_lookup m (PInt i) = Inl (KeyError (PInt i))"
| "py_lookup m (PList xs) = Inl TypeError"
| "py_lookup m (PDict kvs) = Inl TypeError"

section \<open>The collaborators\<close>

text \<open>
  The module imports its parsers, its serializers and its record classes from modules
  that are not part of the sources at hand; they are parameters of the model:
  \<^item> \<open>'p\<close> is the parser output (a pydantic serializer instance),
  \<^item> \<open>'k\<close> is what \<open>model_dump()\<close> returns (the keyword arguments),
  \<^item> \<open>'m\<close> is a record (an instance of a database model class).
  A parser and a record constructor either return or raise.
\<close>

record ('p, 'k, 'm) imported =
  parse_accumulators_sync_event :: "pyval \<Rightarrow> exn + 'p"
  parse_liquidation_event :: "pyval \<Rightarrow> exn + 'p"
  model_dump :: "'p \<Rightarrow> 'k"
  AccumulatorsSyncModel :: "'k \<Rightarrow> exn + 'm"
  LiquidationModel :: "'k \<Rightarrow> exn + 'm"

text \<open>
  The fetch client: \<open>get_data(from_address, min_block_number, max_block_number)\<close>
  returns the response or raises.
\<close>

record DeRiskAPIConnector =
  get_data :: "string \<Rightarrow> int \<Rightarrow> int \<Rightarrow> exn + pyval"

text \<open>
  The persistence collaborator. \<open>'o\<close> is a bound method of the connector and \<open>'s\<close> the
  contents of the store behind it.
  \<^item> \<open>getitem\<close> is the subscript \<open>db_connector[name]\<close>, which the batch loop uses;
  \<^item> \<open>create_accumulator_event\<close> and \<open>create_liquidation_event\<close> are the attributes
    the single-event paths use;
  \<^item> \<open>call\<close> runs a bound method on a record against the store: it returns or raises,
    and leaves a store behind in both cases.
\<close>

record ('o, 'm, 's) ZkLendEventDBConnector =
  getitem :: "string \<Rightarrow> exn + 'o"
  create_accumulator_event :: "'o"
  create_liquidation_event :: "'o"
  call :: "'o \<Rightarrow> 'm \<Rightarrow> 's \<Rightarrow> (exn + unit) \<times> 's"

section \<open>The transformer\<close>

text \<open>The registry entry: parser function, persistence method name, record class.\<close>

type_synonym ('p, 'k, 'm) entry =
  "(pyval \<Rightarrow> exn + 'p) \<times> string \<times> ('k \<Rightarrow> exn + 'm)"

definition EVENT_MAPPING :: "('p, 'k, 'm) imported \<Rightarrow> (string \<times> ('p, 'k, 'm) entry) list" where
  "EVENT_MAPPING d =
     [(''zklend::market::Market::AccumulatorsSync'',
         (parse_accumulators_sync_event d, ''create_accumulator_event'', AccumulatorsSyncModel d)),
      (''zklend::market::Market::Liquidation'',
         (parse_liquidation_event d, ''create_liquidation_event'', LiquidationModel d))]"

text \<open>The instance: the two collaborators \<open>__init__\<close> stores on it.\<close>

record ('o, 'm, 's) ZklendTransformer =
  api_connector :: DeRiskAPIConnector
  db_connector :: "('o, 'm, 's) ZkLendEventDBConnector"

text \<open>
  The state a method runs in: the instance, the persistence calls made so far (method
  and record, oldest first) and the store behind the persistence collaborator.
\<close>

record ('o, 'm, 's) state =
  self :: "('o, 'm, 's) ZklendTransformer"
  calls :: "('o \<times> 'm) list"
  store :: "'s"

text \<open>
  \<open>method(db_model)\<close>: the call is made (and recorded), then it returns or raises.
\<close>

definition invoke ::
  "'o \<Rightarrow> 'm \<Rightarrow> ('o, 'm, 's) state \<Rightarrow> (exn + unit) \<times> ('o, 'm, 's) state" where
  "invoke method db_model st =
     (case call (db_connector (self st)) method db_model (store st) of
        (r, s') \<Rightarrow> (r, st\<lparr>calls := calls st @ [(method, db_model)], store := s'\<rparr>))"

text \<open>The body of the loop of \<open>fetch_and_transform_events\<close>, for one event.\<close>

definition loop_body ::
  "('p, 'k, 'm) imported \<Rightarrow> pyval \<Rightarrow> ('o, 'm, 's) state \<Rightarrow> (exn + unit) \<times> ('o, 'm, 's) state" where
  "loop_body d event st =
     (case py_get event ''key_name'' of
        Inl e \<Rightarrow> (Inl e, st)
      | Inr event_type \<Rightarrow>
        (case py_in_keys event_type (EVENT_MAPPING d) of
           Inl e \<Rightarrow> (Inl e, st)
         | Inr False \<Rightarrow>
             (Inl (ValueError [Lit ''Event type '', Fmt event_type, Lit '' not supported, yet...'']), st)
         | Inr True \<Rightarrow>
           (case py_lookup (EVENT_MAPPING d) event_type of
              Inl e \<Rightarrow> (Inl e, st)
            | Inr (parser_func, method_name, model_class) \<Rightarrow>
              (case py_getitem event ''data'' of
                 Inl e \<Rightarrow> (Inl e, st)
               | Inr data \<Rightarrow>
                 (case parser_func data of
                    Inl e \<Rightarrow> (Inl e, st)
                  | Inr parsed_data \<Rightarrow>
                    (case model_class (model_dump d parsed_data) of
                       Inl e \<Rightarrow> (Inl e, st)
                     | Inr db_model \<Rightarrow>
                       (case getitem (db_connector (self st)) method_name of
                          Inl e \<Rightarrow> (Inl e, st)
                        | Inr method \<Rightarrow> invoke method db_model st)))))))"

text \<open>The loop: the events in order, stopping at the first exception.\<close>

fun for_events ::
  "('p, 'k, 'm) imported \<Rightarrow> pyval list \<Rightarrow> ('o, 'm, 's) state \<Rightarrow> (exn + unit) \<times> ('o, 'm, 's) state" where
  "for_events d [] st = (Inr (), st)"
| "for_events d (event # rest) st =
     (case loop_body d event st of
        (Inl e, st') \<Rightarrow> (Inl e, st')
      | (Inr u, st') \<Rightarrow> for_events d rest st')"

definition fetch_and_transform_events ::
  "('p, 'k, 'm) imported \<Rightarrow> string \<Rightarrow> int \<Rightarrow> int \<Rightarrow> ('o, 'm, 's) state
     \<Rightarrow> (exn + unit) \<times> ('o, 'm, 's) state" where
  "fetch_and_transform_events d from_address min_block max_block st =
     (case get_data (api_connector (self st)) from_address min_block max_block of
        Inl e \<Rightarrow> (Inl e, st)
      | Inr response \<Rightarrow>
        (case py_contains response ''error'' of
           Inl e \<Rightarrow> (Inl e, st)
         | Inr True \<Rightarrow>
           (case py_getitem response ''error'' of
              Inl e \<Rightarrow> (Inl e, st)
            | Inr detail \<Rightarrow> (Inl (ValueError [Lit ''Error fetching events: '', Fmt detail]), st))
         | Inr False \<Rightarrow>
           (case py_iter response of
              Inl e \<Rightarrow> (Inl e, st)
            | Inr events \<Rightarrow> for_events d events st)))"

definition save_accumulators_sync_event ::
  "('p, 'k, 'm) imported \<Rightarrow> pyval \<Rightarrow> ('o, 'm, 's) state \<Rightarrow> (exn + unit) \<times> ('o, 'm, 's) state" where
  "save_accumulators_sync_event d event st =
     (case py_lookup (EVENT_MAPPING d) (PStr ''zklend::market::Market::AccumulatorsSync'') of
        Inl e \<Rightarrow> (Inl e, st)
      | Inr (parser_func, unused, model_class) \<Rightarrow>
        (case parser_func event of
           Inl e \<Rightarrow> (Inl e, st)
         | Inr parsed_data \<Rightarrow>
           (case model_class (model_dump d parsed_data) of
              Inl e \<Rightarrow> (Inl e, st)
            | Inr db_model \<Rightarrow>
                invoke (create_accumulator_event (db_connector (self st))) db_model st)))"

definition save_liquidation_event ::
  "('p, 'k, 'm) imported \<Rightarrow> pyval \<Rightarrow> ('o, 'm, 's) state \<Rightarrow> (exn + unit) \<times> ('o, 'm, 's) state" where
  "save_liquidation_event d event st =
     (case py_lookup (EVENT_MAPPING d) (PStr ''zklend::market::Market::Liquidation'') of
        Inl e \<Rightarrow> (Inl e, st)
      | Inr (parser_func, unused, model_class) \<Rightarrow>
        (case parser_func event of
           Inl e \<Rightarrow> (Inl e, st)
         | Inr parsed_data \<Rightarrow>
           (case model_class (model_dump d parsed_data) of
              Inl e \<Rightarrow> (Inl e, st)
            | Inr db_model \<Rightarrow>
                invoke (create_liquidation_event (db_connector (self st))) db_model st)))"

section \<open>Test doubles\<close>

text \<open>
  Concrete collaborators, to run the transformer on concrete batches: a parser that
  accepts any mapping as it is and rejects everything else, record classes that keep
  their keyword arguments, a fetch client that returns a fixed response, and a
  persistence collaborator whose subscript gives the method of that name and whose
  methods append the record to the store. \<open>demo_state\<close> is the state before any call, for
  the record type of \<open>demo_imported\<close>.
\<close>

definition demo_parser :: "pyval \<Rightarrow> exn + pyval" where
  "demo_parser data =
     (case data of PDict kvs \<Rightarrow> Inr (PDict kvs) | _ \<Rightarrow> Inl (Raised ''ValidationError''))"

definition demo_imported :: "(pyval, pyval, pyval) imported" where
  "demo_imported =
     \<lparr>parse_accumulators_sync_event = demo_parser,
      parse_liquidation_event = demo_parser,
      model_dump = (\<lambda>p. p),
      AccumulatorsSyncModel = Inr,
      LiquidationModel = Inr\<rparr>"

definition recording_db :: "(string, 'm, 'm list) ZkLendEventDBConnector" where
  "recording_db =
     \<lparr>getitem = (\<lambda>name.
        if name = ''create_accumulator_event'' \<or> name = ''create_liquidation_event''
        then Inr name else Inl (KeyError (PStr name))),
      create_accumulator_event = ''create_accumulator_event'',
      create_liquidation_event = ''create_liquidation_event'',
      call = (\<lambda>method db_model s. (Inr (), s @ [db_model]))\<rparr>"

definition recording_state :: "pyval \<Rightarrow> (string, 'm, 'm list) state" where
  "recording_state response =
     \<lparr>self = \<lparr>api_connector = \<lparr>get_data = (\<lambda>from_address min_block max_block. Inr response)\<rparr>,
              db_connector = recording_db\<rparr>,
      calls = [],
      store = []\<rparr>"

definition demo_state :: "pyval \<Rightarrow> (string, pyval, pyval list) state" where
  "demo_state response = recording_state response"

text \<open>
  A persistence collaborator as an ordinary class gives it: the two operations are
  methods, reached as attributes, and the object has no \<open>__getitem__\<close>, so a subscript on
  it raises \<open>TypeError\<close>. Its methods append the record to the store.
\<close>

definition attribute_only_db :: "(string, pyval, pyval list) ZkLendEventDBConnector" where
  "attribute_only_db =
     \<lparr>getitem = (\<lambda>name. Inl TypeError),
      create_accumulator_event = ''create_accumulator_event'',
      create_liquidation_event = ''create_liquidation_event'',
      call = (\<lambda>method db_model s. (Inr (), s @ [db_model]))\<rparr>"

definition attribute_only_state :: "pyval \<Rightarrow> (string, pyval, pyval list) state" where
  "attribute_only_state response =
     \<lparr>self = \<lparr>api_connector = \<lparr>get_data = (\<lambda>from_address min_block max_block. Inr response)\<rparr>,
              db_connector = attribute_only_db\<rparr>,
      calls = [],
      store = []\<rparr>"

definition accumulators_sync_event :: "pyval \<Rightarrow> pyval" where
  "accumulators_sync_event data =
     PDict [(''key_name'', PStr ''zklend::market::Market::AccumulatorsSync''), (''data'', data)]"

definition liquidation_event :: "pyval \<Rightarrow> pyval" where
  "liquidation_event data =
     PDict [(''key_name'', PStr ''zklend::market::Market::Liquidation''), (''data'', data)]"

section \<open>What the registry prescribes\<close>

text \<open>
  The persistence call the registry prescribes for one event, read off the registry and
  the collaborators alone: the event is a mapping, its \<open>key_name\<close> is a registered type,
  the parser of that entry accepts its \<open>data\<close>, the record class of that entry accepts
  the parser's output, and the connector resolves the method name of that entry. The
  call is that method on that record; there is none when any of the steps fails.
\<close>

definition registry_call ::
  "('p, 'k, 'm) imported \<Rightarrow> ('o, 'm, 's) ZkLendEventDBConnector \<Rightarrow> pyval \<Rightarrow> ('o \<times> 'm) option" where
  "registry_call d db event =
     (case event of
        PDict kvs \<Rightarrow>
          (case map_of kvs ''key_name'' of
             Some (PStr t) \<Rightarrow>
               (case map_of (EVENT_MAPPING d) t of
                  Some (parser_func, method_name, model_class) \<Rightarrow>
                    (case map_of kvs ''data'' of
                       Some data \<Rightarrow>
                         (case parser_func data of
                            Inr parsed_data \<Rightarrow>
                              (case model_class (model_dump d parsed_data) of
                                 Inr db_model \<Rightarrow>
                                   (case getitem db method_name of
                                      Inr method \<Rightarrow> Some (method, db_model)
                                    | Inl e \<Rightarrow> None)
                               | Inl e \<Rightarrow> None)
                          | Inl e \<Rightarrow> None)
                     | None \<Rightarrow> None)
                | None \<Rightarrow> None)
           | _ \<Rightarrow> None)
      | _ \<Rightarrow> None)"

text \<open>The dispatch sequence of an invocation: the persistence calls it added.\<close>

definition dispatched :: "('o, 'm, 's) state \<Rightarrow> ('o, 'm, 's) state \<Rightarrow> ('o \<times> 'm) list" where
  "dispatched st st' = drop (length (calls st)) (calls st')"

section \<open>Parsers and record classes as the specification describes them\<close>

text \<open>
  Modelled from the spec: the field types of a ParsedEventData. The serializer classes
  (\<open>AccumulatorsSyncEventData\<close>, \<open>LiquidationEventData\<close> of
  \<open>data_parser.serializers\<close>) are not among the sources; the specification says that a
  ParsedEventData holds validated, typed fields and that numeric amounts keep the exact
  precision of the upstream representation. A field is text or an amount; an amount is
  an unbounded integer.
\<close>

datatype field_type = Text | Amount

fun has_type :: "field_type \<Rightarrow> pyval \<Rightarrow> bool" where
  "has_type Text (PStr s) = True"
| "has_type Amount (PInt i) = True"
| "has_type ty v = False"

text \<open>
  Modelled from the spec: a parser (\<open>ZkLendDataParser.parse_accumulators_sync_event\<close>,
  \<open>ZkLendDataParser.parse_liquidation_event\<close>, not among the sources). It takes the
  payload, a mapping, and the required fields of its event type with their types; it
  fails with a \<open>ValidationError\<close> when the payload is no mapping or a required field is
  absent or of the wrong shape; otherwise it returns the required fields with the values
  the payload has for them. It has no effect.
\<close>

fun parse_fields ::
  "(string \<times> field_type) list \<Rightarrow> (string \<times> pyval) list \<Rightarrow> exn + (string \<times> pyval) list" where
  "parse_fields [] kvs = Inr []"
| "parse_fields ((name, ty) # rest) kvs =
     (case map_of kvs name of
        None \<Rightarrow> Inl (Raised ''ValidationError'')
      | Some v \<Rightarrow>
          if has_type ty v
          then (case parse_fields rest kvs of
                  Inl e \<Rightarrow> Inl e
                | Inr parsed \<Rightarrow> Inr ((name, v) # parsed))
          else Inl (Raised ''ValidationError''))"

fun spec_parser :: "(string \<times> field_type) list \<Rightarrow> pyval \<Rightarrow> exn + (string \<times> pyval) list" where
  "spec_parser required (PDict kvs) = parse_fields required kvs"
| "spec_parser required payload = Inl (Raised ''ValidationError'')"

text \<open>
  Modelled from the spec: a record class (\<open>AccumulatorsSyncEventData\<close>,
  \<open>LiquidationEventData\<close> of \<open>db.models.zklend_events\<close>, not among the sources). The
  CanonicalRecord is built from a ParsedEventData and adds nothing beyond field presence
  and typing: the constructor takes keyword arguments, accepts them when they are the
  fields of its event type, one for one and each of its type, and the record holds them
  as given; it raises \<open>TypeError\<close> otherwise.
\<close>

definition spec_record ::
  "(string \<times> field_type) list \<Rightarrow> (string \<times> pyval) list \<Rightarrow> exn + (string \<times> pyval) list" where
  "spec_record expected kwargs =
     (if map fst kwargs = map fst expected
         \<and> list_all2 (\<lambda>field kwarg. has_type (snd field) (snd kwarg)) expected kwargs
      then Inr kwargs else Inl TypeError)"

text \<open>
  Modelled from the spec: the imported names, for the fields of the two event types.
  \<open>model_dump\<close> gives the fields of the parser output as keyword arguments.
\<close>

definition spec_imported ::
  "(string \<times> field_type) list \<Rightarrow> (string \<times> field_type) list
     \<Rightarrow> ((string \<times> pyval) list, (string \<times> pyval) list, (string \<times> pyval) list) imported" where
  "spec_imported accumulators_sync_fields liquidation_fields =
     \<lparr>parse_accumulators_sync_event = spec_parser accumulators_sync_fields,
      parse_liquidation_event = spec_parser liquidation_fields,
      model_dump = (\<lambda>parsed_data. parsed_data),
      AccumulatorsSyncModel = spec_record accumulators_sync_fields,
      LiquidationModel = spec_record liquidation_fields\<rparr>"

section \<open>Basic facts about the loop\<close>

lemmas run_defs =
  fetch_and_transform_events_def loop_body_def invoke_def EVENT_MAPPING_def

lemmas demo_defs =
  demo_parser_def demo_imported_def recording_db_def recording_state_def demo_state_def
  attribute_only_db_def attribute_only_state_def
  accumulators_sync_event_def liquidation_event_def

lemma map_of_in_keys: "map_of kvs k = Some v \<Longrightarrow> k \<in> set (map fst kvs)"
  by (metis map_of_eq_None_iff option.distinct(1) set_map)

lemma for_events_append:
  "for_events d (pre @ post) st =
     (case for_events d pre st of
        (Inl e, st') \<Rightarrow> (Inl e, st')
      | (Inr u, st') \<Rightarrow> for_events d post st')"
  by (induction pre arbitrary: st) (auto split: prod.splits sum.splits)

lemma for_events_stops:
  assumes "for_events d pre st = (Inr (), st1)" and "loop_body d event st1 = (Inl e, st2)"
  shows "for_events d (pre @ event # post) st = (Inl e, st2)"
  using assms by (simp add: for_events_append)

lemma response_list_no_error:
  assumes "get_data (api_connector (self st)) from_address min_block max_block = Inr (PList evs)"
    and "PStr ''error'' \<notin> set evs"
  shows "fetch_and_transform_events d from_address min_block max_block st = for_events d evs st"
  using assms by (simp add: fetch_and_transform_events_def)

lemma response_list_error_item:
  assumes "get_data (api_connector (self st)) from_address min_block max_block = Inr (PList evs)"
    and "PStr ''error'' \<in> set evs"
  shows "fetch_and_transform_events d from_address min_block max_block st = (Inl TypeError, st)"
  using assms by (simp add: fetch_and_transform_events_def)

lemma self_invoke: "self (snd (invoke method db_model st)) = self st"
  by (simp add: invoke_def split: prod.splits)

lemma calls_invoke: "calls (snd (invoke method db_model st)) = calls st @ [(method, db_model)]"
  by (simp add: invoke_def split: prod.splits)

lemma store_invoke:
  "store (snd (invoke method db_model st)) =
     snd (call (db_connector (self st)) method db_model (store st))"
  by (simp add: invoke_def split: prod.splits)

lemma fst_invoke:
  "fst (invoke method db_model st) =
     fst (call (db_connector (self st)) method db_model (store st))"
  by (simp add: invoke_def split: prod.splits)

lemma loop_body_unknown:
  assumes "py_get event ''key_name'' = Inr t" and "py_in_keys t (EVENT_MAPPING d) = Inr False"
  shows "loop_body d event st =
           (Inl (ValueError [Lit ''Event type '', Fmt t, Lit '' not supported, yet...'']), st)"
  using assms by (simp add: loop_body_def)

lemma loop_body_parser_raises:
  assumes "map_of kvs ''key_name'' = Some (PStr t)"
    and "map_of (EVENT_MAPPING d) t = Some (parser_func, method_name, model_class)"
    and "map_of kvs ''data'' = Some data"
    and "parser_func data = Inl e"
  shows "loop_body d (PDict kvs) st = (Inl e, st)"
  using assms map_of_in_keys[OF assms(2)] by (simp add: loop_body_def)

lemma loop_body_known:
  assumes "map_of kvs ''key_name'' = Some (PStr t)"
    and "map_of (EVENT_MAPPING d) t = Some (parser_func, method_name, model_class)"
    and "map_of kvs ''data'' = Some data"
    and "parser_func data = Inr parsed_data"
    and "model_class (model_dump d parsed_data) = Inr db_model"
    and "getitem (db_connector (self st)) method_name = Inr method"
  shows "loop_body d (PDict kvs) st = invoke method db_model st"
  using assms map_of_in_keys[OF assms(2)] by (simp add: loop_body_def)

section \<open>A failed fetch\<close>

text \<open>
  C1. When the fetch response is a mapping with an \<open>error\<close> field,
  \<open>fetch_and_transform_events\<close> raises the \<open>ValueError\<close> whose message is
  \<open>Error fetching events:\<close> followed by the value of that field, whatever else the
  response holds, and the state is the one it started in: the persistence collaborator
  received no call.
\<close>

theorem fetch_error_aborts_without_persistence:
  assumes "get_data (api_connector (self st)) from_address min_block max_block = Inr (PDict kvs)"
    and "map_of kvs ''error'' = Some detail"
  shows "fetch_and_transform_events d from_address min_block max_block st =
           (Inl (ValueError [Lit ''Error fetching events: '', Fmt detail]), st)"
  using assms map_of_in_keys[OF assms(2)]
  by (simp add: fetch_and_transform_events_def)

theorem fetch_error_aborts_without_persistence_witness:
  "fetch_and_transform_events demo_imported ''0x1'' 0 10
     (demo_state (PDict [(''data'', PList [liquidation_event (PDict [])]), (''error'', PStr ''timeout'')]))
   = (Inl (ValueError [Lit ''Error fetching events: '', Fmt (PStr ''timeout'')]),
      demo_state (PDict [(''data'', PList [liquidation_event (PDict [])]), (''error'', PStr ''timeout'')]))"
proof -
  let ?kvs = "[(''data'', PList [liquidation_event (PDict [])]), (''error'', PStr ''timeout'')]"
  have fetched: "get_data (api_connector (self (demo_state (PDict ?kvs)))) ''0x1'' 0 10 = Inr (PDict ?kvs)"
    by (simp add: demo_defs)
  have field: "map_of ?kvs ''error'' = Some (PStr ''timeout'')"
    by simp
  show ?thesis
    by (rule fetch_error_aborts_without_persistence[OF fetched field])
qed

section \<open>The fetch-error check on a list\<close>

text \<open>
  C10, as amended. When the fetch response is a list, the check \<open>"error" in response\<close>
  tests whether the string \<open>error\<close> is an item of the list. A list whose items are all
  mappings goes to the loop, whatever fields the items have. A list with the bare string
  \<open>error\<close> among its items enters the fetch-error branch, where \<open>response['error']\<close>
  subscripts a list with a string: the call ends in \<open>TypeError\<close>, with no event
  processed and the state unchanged.
\<close>

theorem error_check_on_a_list_is_element_membership:
  assumes "get_data (api_connector (self st)) from_address min_block max_block = Inr (PList evs)"
  shows "py_contains (PList evs) ''error'' = Inr (PStr ''error'' \<in> set evs)
       \<and> fetch_and_transform_events d from_address min_block max_block st =
           (if PStr ''error'' \<in> set evs then (Inl TypeError, st) else for_events d evs st)
       \<and> ((\<forall>ev \<in> set evs. \<exists>kvs. ev = PDict kvs) \<longrightarrow>
            fetch_and_transform_events d from_address min_block max_block st = for_events d evs st)"
proof -
  have "(\<forall>ev \<in> set evs. \<exists>kvs. ev = PDict kvs) \<longrightarrow> PStr ''error'' \<notin> set evs"
    by auto
  then show ?thesis
    by (auto simp add: response_list_no_error[OF assms] response_list_error_item[OF assms])
qed

theorem error_check_on_a_list_is_element_membership_witness:
  "fetch_and_transform_events demo_imported ''0x1'' 0 10
     (demo_state (PList [PDict [(''error'', PStr ''timeout'')]]))
   = for_events demo_imported [PDict [(''error'', PStr ''timeout'')]]
       (demo_state (PList [PDict [(''error'', PStr ''timeout'')]]))"
proof -
  let ?evs = "[PDict [(''error'', PStr ''timeout'')]]"
  have fetched: "get_data (api_connector (self (demo_state (PList ?evs)))) ''0x1'' 0 10 = Inr (PList ?evs)"
    by (simp add: demo_defs)
  have mappings: "\<forall>ev \<in> set ?evs. \<exists>kvs. ev = PDict kvs"
    by simp
  from error_check_on_a_list_is_element_membership[OF fetched, of demo_imported] mappings
  show ?thesis by blast
qed

text \<open>
  The claim as stated fails on the one-item list \<open>["error"]\<close>: the call does not end in
  the fetch error, it ends in \<open>TypeError\<close>.
\<close>

theorem bare_error_item_raises_type_error_counterexample:
  "fetch_and_transform_events demo_imported ''0x1'' 0 10 (demo_state (PList [PStr ''error'']))
   = (Inl TypeError, demo_state (PList [PStr ''error'']))"
  by (simp add: run_defs demo_defs)

section \<open>An event of an unknown type\<close>

text \<open>
  C2, as amended. When an event's type identifier has no registry entry and the events
  before it were all dispatched, \<open>fetch_and_transform_events\<close> raises the \<open>ValueError\<close>
  that names the type, and the state is the one the events before it left: their
  persistence calls stand, and no call is made for the unknown event or for any event
  after it.
\<close>

theorem unknown_type_aborts_rest_of_batch:
  assumes "get_data (api_connector (self st)) from_address min_block max_block
             = Inr (PList (pre @ PDict kvs # post))"
    and "PStr ''error'' \<notin> set pre \<union> set post"
    and "map_of kvs ''key_name'' = Some (PStr t)"
    and "t \<notin> set (map fst (EVENT_MAPPING d))"
    and "for_events d pre st = (Inr (), st1)"
  shows "fetch_and_transform_events d from_address min_block max_block st =
           (Inl (ValueError [Lit ''Event type '', Fmt (PStr t), Lit '' not supported, yet...'']), st1)"
proof -
  have "loop_body d (PDict kvs) st1 =
          (Inl (ValueError [Lit ''Event type '', Fmt (PStr t), Lit '' not supported, yet...'']), st1)"
    using assms(3,4) by (intro loop_body_unknown) simp_all
  with assms(5) have "for_events d (pre @ PDict kvs # post) st =
          (Inl (ValueError [Lit ''Event type '', Fmt (PStr t), Lit '' not supported, yet...'']), st1)"
    by (rule for_events_stops)
  moreover have "PStr ''error'' \<notin> set (pre @ PDict kvs # post)"
    using assms(2) by simp
  ultimately show ?thesis
    by (simp add: response_list_no_error[OF assms(1)])
qed

theorem unknown_type_aborts_rest_of_batch_witness:
  "fetch_and_transform_events demo_imported ''0x1'' 0 10
     (demo_state (PList [liquidation_event (PDict []),
                         PDict [(''key_name'', PStr ''zklend::market::Market::Repayment''), (''data'', PDict [])],
                         accumulators_sync_event (PDict [])]))
   = (Inl (ValueError [Lit ''Event type '', Fmt (PStr ''zklend::market::Market::Repayment''),
                       Lit '' not supported, yet...'']),
      (demo_state (PList [liquidation_event (PDict []),
                         PDict [(''key_name'', PStr ''zklend::market::Market::Repayment''), (''data'', PDict [])],
                         accumulators_sync_event (PDict [])]))
        \<lparr>calls := [(''create_liquidation_event'', PDict [])], store := [PDict []]\<rparr>)"
proof -
  let ?kvs = "[(''key_name'', PStr ''zklend::market::Market::Repayment''), (''data'', PDict [])]"
  let ?pre = "[liquidation_event (PDict [])]"
  let ?post = "[accumulators_sync_event (PDict [])]"
  let ?st = "demo_state (PList [liquidation_event (PDict []), PDict ?kvs, accumulators_sync_event (PDict [])])"
  have fetched: "get_data (api_connector (self ?st)) ''0x1'' 0 10 = Inr (PList (?pre @ PDict ?kvs # ?post))"
    by (simp add: demo_defs)
  have no_error: "PStr ''error'' \<notin> set ?pre \<union> set ?post"
    by (simp add: demo_defs)
  have key: "map_of ?kvs ''key_name'' = Some (PStr ''zklend::market::Market::Repayment'')"
    by simp
  have unknown: "''zklend::market::Market::Repayment'' \<notin> set (map fst (EVENT_MAPPING demo_imported))"
    by (simp add: EVENT_MAPPING_def)
  have earlier: "for_events demo_imported ?pre ?st
                  = (Inr (), ?st\<lparr>calls := [(''create_liquidation_event'', PDict [])], store := [PDict []]\<rparr>)"
    by (simp add: run_defs demo_defs)
  show ?thesis
    using unknown_type_aborts_rest_of_batch[OF fetched no_error key unknown earlier] by simp
qed

text \<open>
  The claim as stated fails on a batch of one valid Liquidation event followed by an
  event of an unknown type: the call raises, and the Liquidation event before the
  unknown one has been persisted.
\<close>

theorem unknown_type_after_valid_event_counterexample:
  "calls (snd (fetch_and_transform_events demo_imported ''0x1'' 0 10
     (demo_state (PList [liquidation_event (PDict []),
                         PDict [(''key_name'', PStr ''zklend::market::Market::Repayment''), (''data'', PDict [])]]))))
   = [(''create_liquidation_event'', PDict [])]
 \<and> fst (fetch_and_transform_events demo_imported ''0x1'' 0 10
     (demo_state (PList [liquidation_event (PDict []),
                         PDict [(''key_name'', PStr ''zklend::market::Market::Repayment''), (''data'', PDict [])]])))
   = Inl (ValueError [Lit ''Event type '', Fmt (PStr ''zklend::market::Market::Repayment''),
                      Lit '' not supported, yet...''])"
  by (simp add: run_defs demo_defs)

text \<open>
  C9. An event that is a mapping without a \<open>key_name\<close> field does not fail on the
  missing key: its type is \<open>None\<close>, which is no key of the registry, so the call raises
  the \<open>ValueError\<close> for an unsupported type, naming \<open>None\<close>, and no later event is
  processed (the state is the one the events before it left).
\<close>

theorem missing_key_name_is_unsupported_none:
  assumes "get_data (api_connector (self st)) from_address min_block max_block
             = Inr (PList (pre @ PDict kvs # post))"
    and "PStr ''error'' \<notin> set pre \<union> set post"
    and "map_of kvs ''key_name'' = None"
    and "for_events d pre st = (Inr (), st1)"
  shows "fetch_and_transform_events d from_address min_block max_block st =
           (Inl (ValueError [Lit ''Event type '', Fmt PNone, Lit '' not supported, yet...'']), st1)"
proof -
  have "loop_body d (PDict kvs) st1 =
          (Inl (ValueError [Lit ''Event type '', Fmt PNone, Lit '' not supported, yet...'']), st1)"
    using assms(3) by (intro loop_body_unknown) simp_all
  with assms(4) have "for_events d (pre @ PDict kvs # post) st =
          (Inl (ValueError [Lit ''Event type '', Fmt PNone, Lit '' not supported, yet...'']), st1)"
    by (rule for_events_stops)
  moreover have "PStr ''error'' \<notin> set (pre @ PDict kvs # post)"
    using assms(2) by simp
  ultimately show ?thesis
    by (simp add: response_list_no_error[OF assms(1)])
qed

theorem missing_key_name_is_unsupported_none_witness:
  "fetch_and_transform_events demo_imported ''0x1'' 0 10
     (demo_state (PList [PDict [(''data'', PDict [])], liquidation_event (PDict [])]))
   = (Inl (ValueError [Lit ''Event type '', Fmt PNone, Lit '' not supported, yet...'']),
      demo_state (PList [PDict [(''data'', PDict [])], liquidation_event (PDict [])]))"
proof -
  let ?kvs = "[(''data'', PDict [])]"
  let ?post = "[liquidation_event (PDict [])]"
  let ?st = "demo_state (PList [PDict ?kvs, liquidation_event (PDict [])])"
  have fetched: "get_data (api_connector (self ?st)) ''0x1'' 0 10 = Inr (PList ([] @ PDict ?kvs # ?post))"
    by (simp add: demo_defs)
  have no_error: "PStr ''error'' \<notin> set [] \<union> set ?post"
    by (simp add: demo_defs)
  have key: "map_of ?kvs ''key_name'' = None"
    by simp
  have earlier: "for_events demo_imported [] ?st = (Inr (), ?st)"
    by simp
  show ?thesis
    using missing_key_name_is_unsupported_none[OF fetched no_error key earlier] by simp
qed

section \<open>A payload the parser rejects\<close>

text \<open>
  C4, as amended. When an event of a registered type has a payload its parser rejects,
  and the events before it were all dispatched, \<open>fetch_and_transform_events\<close> ends with
  exactly the exception the parser raised, nothing added to it; no later event is
  processed and the state is the one the events before it left.
\<close>

theorem parser_failure_propagates_unchanged:
  assumes "get_data (api_connector (self st)) from_address min_block max_block
             = Inr (PList (pre @ PDict kvs # post))"
    and "PStr ''error'' \<notin> set pre \<union> set post"
    and "map_of kvs ''key_name'' = Some (PStr t)"
    and "map_of (EVENT_MAPPING d) t = Some (parser_func, method_name, model_class)"
    and "map_of kvs ''data'' = Some data"
    and "parser_func data = Inl e"
    and "for_events d pre st = (Inr (), st1)"
  shows "fetch_and_transform_events d from_address min_block max_block st = (Inl e, st1)"
proof -
  have "loop_body d (PDict kvs) st1 = (Inl e, st1)"
    using assms(3-6) by (rule loop_body_parser_raises)
  with assms(7) have "for_events d (pre @ PDict kvs # post) st = (Inl e, st1)"
    by (rule for_events_stops)
  moreover have "PStr ''error'' \<notin> set (pre @ PDict kvs # post)"
    using assms(2) by simp
  ultimately show ?thesis
    by (simp add: response_list_no_error[OF assms(1)])
qed

theorem parser_failure_propagates_unchanged_witness:
  "fetch_and_transform_events demo_imported ''0x1'' 0 10
     (demo_state (PList [liquidation_event (PInt 7), liquidation_event (PDict [])]))
   = (Inl (Raised ''ValidationError''),
      demo_state (PList [liquidation_event (PInt 7), liquidation_event (PDict [])]))"
proof -
  let ?kvs = "[(''key_name'', PStr ''zklend::market::Market::Liquidation''), (''data'', PInt 7)]"
  let ?post = "[liquidation_event (PDict [])]"
  let ?st = "demo_state (PList [liquidation_event (PInt 7), liquidation_event (PDict [])])"
  have fetched: "get_data (api_connector (self ?st)) ''0x1'' 0 10 = Inr (PList ([] @ PDict ?kvs # ?post))"
    by (simp add: demo_defs)
  have no_error: "PStr ''error'' \<notin> set [] \<union> set ?post"
    by (simp add: demo_defs)
  have key: "map_of ?kvs ''key_name'' = Some (PStr ''zklend::market::Market::Liquidation'')"
    by simp
  have entry: "map_of (EVENT_MAPPING demo_imported) ''zklend::market::Market::Liquidation''
                 = Some (demo_parser, ''create_liquidation_event'', Inr)"
    by (simp add: EVENT_MAPPING_def demo_imported_def)
  have data: "map_of ?kvs ''data'' = Some (PInt 7)"
    by simp
  have rejected: "demo_parser (PInt 7) = Inl (Raised ''ValidationError'')"
    by (simp add: demo_parser_def)
  have earlier: "for_events demo_imported [] ?st = (Inr (), ?st)"
    by simp
  show ?thesis
    using parser_failure_propagates_unchanged[OF fetched no_error key entry data rejected earlier]
    by simp
qed

text \<open>
  The claim as stated fails with a parser whose exception holds neither the type nor
  the payload: an AccumulatorsSync event with payload \<open>1\<close> and a Liquidation event with
  payload \<open>2\<close> end in the same exception, so nothing of the event was added to it.
\<close>

theorem parser_failure_carries_no_tag_counterexample:
  "fst (fetch_and_transform_events demo_imported ''0x1'' 0 10
          (demo_state (PList [accumulators_sync_event (PInt 1)])))
     = Inl (Raised ''ValidationError'')
 \<and> fst (fetch_and_transform_events demo_imported ''0x1'' 0 10
          (demo_state (PList [liquidation_event (PInt 2)])))
     = Inl (Raised ''ValidationError'')"
  by (simp add: run_defs demo_defs)

section \<open>A batch of valid events\<close>

lemma registry_callD:
  assumes "registry_call d db event = Some (method, db_model)"
  obtains kvs t parser_func method_name model_class data parsed_data where
    "event = PDict kvs" "map_of kvs ''key_name'' = Some (PStr t)"
    "map_of (EVENT_MAPPING d) t = Some (parser_func, method_name, model_class)"
    "map_of kvs ''data'' = Some data" "parser_func data = Inr parsed_data"
    "model_class (model_dump d parsed_data) = Inr db_model"
    "getitem db method_name = Inr method"
  using assms unfolding registry_call_def
  by (auto split: pyval.splits option.splits sum.splits prod.splits)

lemma loop_body_registry_call:
  assumes "registry_call d (db_connector (self st)) event = Some (method, db_model)"
  shows "loop_body d event st = invoke method db_model st"
  using assms by (elim registry_callD) (simp add: loop_body_known)

lemma for_events_valid:
  assumes "map (registry_call d (db_connector (self st))) evs = map Some cs"
    and "\<forall>(method, db_model) \<in> set cs. \<forall>s. fst (call (db_connector (self st)) method db_model s) = Inr ()"
  shows "fst (for_events d evs st) = Inr ()
       \<and> self (snd (for_events d evs st)) = self st
       \<and> calls (snd (for_events d evs st)) = calls st @ cs
       \<and> store (snd (for_events d evs st)) =
           foldl (\<lambda>s (method, db_model). snd (call (db_connector (self st)) method db_model s)) (store st) cs"
  using assms
proof (induction evs arbitrary: st cs)
  case Nil
  then show ?case by simp
next
  case (Cons ev evs)
  from Cons.prems(1) obtain c cs' where cs: "cs = c # cs'"
    and c: "registry_call d (db_connector (self st)) ev = Some c"
    and rest: "map (registry_call d (db_connector (self st))) evs = map Some cs'"
    by (cases cs) auto
  obtain meth db_model where cm: "c = (meth, db_model)" by (cases c)
  let ?st' = "snd (invoke meth db_model st)"
  have body: "loop_body d ev st = invoke meth db_model st"
    using c cm by (simp add: loop_body_registry_call)
  have ok: "fst (invoke meth db_model st) = Inr ()"
    using Cons.prems(2) cs cm by (simp add: fst_invoke)
  have step: "for_events d (ev # evs) st = for_events d evs ?st'"
    using body ok by (cases "invoke meth db_model st") simp
  have self': "self ?st' = self st" by (rule self_invoke)
  have IH: "fst (for_events d evs ?st') = Inr ()
       \<and> self (snd (for_events d evs ?st')) = self ?st'
       \<and> calls (snd (for_events d evs ?st')) = calls ?st' @ cs'
       \<and> store (snd (for_events d evs ?st')) =
           foldl (\<lambda>s (meth, db_model). snd (call (db_connector (self ?st')) meth db_model s)) (store ?st') cs'"
    using rest Cons.prems(2) cs by (intro Cons.IH) (simp_all add: self')
  show ?case
    unfolding step using IH by (simp add: self' cs cm calls_invoke store_invoke)
qed

text \<open>
  What the loop does when the subscript on the connector resolves: if every event of the
  batch has a call prescribed by the registry and those calls return, the invocation
  returns normally and has made exactly those calls, one per event, in the order of the
  events.
\<close>

lemma batch_calls_when_subscript_resolves:
  assumes "get_data (api_connector (self st)) from_address min_block max_block = Inr (PList evs)"
    and "map (registry_call d (db_connector (self st))) evs = map Some cs"
    and "\<forall>(method, db_model) \<in> set cs. \<forall>s. fst (call (db_connector (self st)) method db_model s) = Inr ()"
  shows "fst (fetch_and_transform_events d from_address min_block max_block st) = Inr ()
       \<and> calls (snd (fetch_and_transform_events d from_address min_block max_block st)) = calls st @ cs
       \<and> store (snd (fetch_and_transform_events d from_address min_block max_block st)) =
           foldl (\<lambda>s (method, db_model). snd (call (db_connector (self st)) method db_model s)) (store st) cs"
proof -
  have "PStr ''error'' \<notin> set evs"
  proof
    assume "PStr ''error'' \<in> set evs"
    then have "registry_call d (db_connector (self st)) (PStr ''error'')
                 \<in> set (map (registry_call d (db_connector (self st))) evs)"
      by simp
    then obtain c where "registry_call d (db_connector (self st)) (PStr ''error'') = Some c"
      unfolding assms(2) by auto
    then show False by (simp add: registry_call_def)
  qed
  then have "fetch_and_transform_events d from_address min_block max_block st = for_events d evs st"
    by (simp add: response_list_no_error[OF assms(1)])
  then show ?thesis
    using for_events_valid[OF assms(2,3)] by simp
qed

text \<open>
  C3. A batch of valid events is to end in one persistence call per event, each to the
  operation named in the event's registry entry, in order. The loop reaches the operation
  by a subscript on the connector, \<open>self.db_connector[method_name]\<close>, where the
  single-event paths reach the same operations as attributes. On a connector that has
  its operations as methods only, the batch of three AccumulatorsSync events followed by
  one Liquidation event ends in \<open>TypeError\<close> at the first event, with no persistence call
  made and nothing stored, while \<open>save_accumulators_sync_event\<close> on the first payload
  and the same connector makes the \<open>create_accumulator_event\<close> call.
\<close>

theorem valid_batch_makes_no_call_on_attribute_only_connector:
  "fetch_and_transform_events demo_imported ''0x1'' 0 10
     (attribute_only_state (PList [accumulators_sync_event (PDict [(''n'', PInt 1)]),
                                   accumulators_sync_event (PDict [(''n'', PInt 2)]),
                                   accumulators_sync_event (PDict [(''n'', PInt 3)]),
                                   liquidation_event (PDict [(''n'', PInt 4)])]))
   = (Inl TypeError,
      attribute_only_state (PList [accumulators_sync_event (PDict [(''n'', PInt 1)]),
                                   accumulators_sync_event (PDict [(''n'', PInt 2)]),
                                   accumulators_sync_event (PDict [(''n'', PInt 3)]),
                                   liquidation_event (PDict [(''n'', PInt 4)])]))
 \<and> calls (attribute_only_state (PList [accumulators_sync_event (PDict [(''n'', PInt 1)]),
                                   accumulators_sync_event (PDict [(''n'', PInt 2)]),
                                   accumulators_sync_event (PDict [(''n'', PInt 3)]),
                                   liquidation_event (PDict [(''n'', PInt 4)])])) = []
 \<and> save_accumulators_sync_event demo_imported (PDict [(''n'', PInt 1)])
       (attribute_only_state (PList []))
   = (Inr (),
      (attribute_only_state (PList []))
        \<lparr>calls := [(''create_accumulator_event'', PDict [(''n'', PInt 1)])],
         store := [PDict [(''n'', PInt 1)]]\<rparr>)"
  by (simp add: save_accumulators_sync_event_def run_defs demo_defs)

section \<open>The single-event path for a Liquidation payload\<close>

text \<open>
  The two paths build the record in the same way. They end alike when the connector's
  subscript by \<open>create_liquidation_event\<close> gives the method its attribute of that name
  gives.
\<close>

lemma single_path_is_batch_of_one_when_subscript_is_attribute:
  assumes "get_data (api_connector (self st)) from_address min_block max_block
             = Inr (PList [PDict kvs])"
    and "map_of kvs ''key_name'' = Some (PStr ''zklend::market::Market::Liquidation'')"
    and "map_of kvs ''data'' = Some payload"
    and "getitem (db_connector (self st)) ''create_liquidation_event''
           = Inr (create_liquidation_event (db_connector (self st)))"
  shows "fetch_and_transform_events d from_address min_block max_block st
           = save_liquidation_event d payload st"
proof -
  have "fetch_and_transform_events d from_address min_block max_block st
          = for_events d [PDict kvs] st"
    by (simp add: response_list_no_error[OF assms(1)])
  also have "\<dots> = loop_body d (PDict kvs) st"
    by (cases "loop_body d (PDict kvs) st") (auto split: sum.splits)
  also have "\<dots> = save_liquidation_event d payload st"
    using assms(2-4)
    by (simp add: loop_body_def save_liquidation_event_def EVENT_MAPPING_def split: sum.splits)
  finally show ?thesis .
qed

text \<open>
  C5. \<open>save_liquidation_event\<close> on a Liquidation payload is to build the same record
  and make the same persistence call as the loop does on the batch of that one event.
  The single-event path calls \<open>self.db_connector.create_liquidation_event\<close>, the loop
  calls \<open>self.db_connector[method_name]\<close>. On a connector that has its operations as
  methods only, the single-event path makes the \<open>create_liquidation_event\<close> call with
  the record, and the loop on the batch of that one event ends in \<open>TypeError\<close> with no
  call made.
\<close>

theorem single_and_batch_paths_differ_on_attribute_only_connector:
  "save_liquidation_event demo_imported (PDict [(''n'', PInt 4)])
     (attribute_only_state (PList [liquidation_event (PDict [(''n'', PInt 4)])]))
   = (Inr (),
      (attribute_only_state (PList [liquidation_event (PDict [(''n'', PInt 4)])]))
        \<lparr>calls := [(''create_liquidation_event'', PDict [(''n'', PInt 4)])],
         store := [PDict [(''n'', PInt 4)]]\<rparr>)
 \<and> fetch_and_transform_events demo_imported ''0x1'' 0 10
     (attribute_only_state (PList [liquidation_event (PDict [(''n'', PInt 4)])]))
   = (Inl TypeError,
      attribute_only_state (PList [liquidation_event (PDict [(''n'', PInt 4)])]))"
  by (simp add: save_liquidation_event_def run_defs demo_defs)

section \<open>No state across invocations\<close>

lemma loop_body_pair:
  assumes "self st2 = self st1"
  shows "(\<exists>e. loop_body d event st1 = (Inl e, st1) \<and> loop_body d event st2 = (Inl e, st2))
       \<or> (\<exists>method db_model. loop_body d event st1 = invoke method db_model st1
              \<and> loop_body d event st2 = invoke method db_model st2)"
  unfolding loop_body_def assms
  by (simp split: sum.split bool.split prod.split) blast

lemma loop_body_two_runs:
  assumes "self st2 = self st1"
    and "\<forall>method db_model s s'.
           fst (call (db_connector (self st1)) method db_model s)
             = fst (call (db_connector (self st1)) method db_model s')"
  shows "fst (loop_body d event st1) = fst (loop_body d event st2)
       \<and> self (snd (loop_body d event st1)) = self st1
       \<and> self (snd (loop_body d event st2)) = self st1
       \<and> (\<exists>cs. calls (snd (loop_body d event st1)) = calls st1 @ cs
              \<and> calls (snd (loop_body d event st2)) = calls st2 @ cs)"
proof -
  consider e where "loop_body d event st1 = (Inl e, st1)" "loop_body d event st2 = (Inl e, st2)"
    | meth db_model where "loop_body d event st1 = invoke meth db_model st1"
      "loop_body d event st2 = invoke meth db_model st2"
    using loop_body_pair[OF assms(1), of d event] by blast
  then show ?thesis
  proof cases
    case 1
    then show ?thesis using assms(1) by simp
  next
    case 2
    then show ?thesis
      using assms by (simp add: self_invoke calls_invoke fst_invoke)
  qed
qed

lemma for_events_two_runs:
  assumes "self st2 = self st1"
    and "\<forall>method db_model s s'.
           fst (call (db_connector (self st1)) method db_model s)
             = fst (call (db_connector (self st1)) method db_model s')"
  shows "fst (for_events d evs st1) = fst (for_events d evs st2)
       \<and> self (snd (for_events d evs st1)) = self st1
       \<and> self (snd (for_events d evs st2)) = self st1
       \<and> (\<exists>cs. calls (snd (for_events d evs st1)) = calls st1 @ cs
              \<and> calls (snd (for_events d evs st2)) = calls st2 @ cs)"
  using assms
proof (induction evs arbitrary: st1 st2)
  case Nil
  then show ?case by simp
next
  case (Cons ev evs)
  obtain r1 t1 where b1: "loop_body d ev st1 = (r1, t1)" by (cases "loop_body d ev st1")
  obtain r2 t2 where b2: "loop_body d ev st2 = (r2, t2)" by (cases "loop_body d ev st2")
  from loop_body_two_runs[OF Cons.prems, of d ev] b1 b2
  obtain cs where r: "r1 = r2" and s1: "self t1 = self st1" and s2: "self t2 = self st1"
    and c1: "calls t1 = calls st1 @ cs" and c2: "calls t2 = calls st2 @ cs"
    by auto
  show ?case
  proof (cases r1)
    case (Inl e)
    then show ?thesis using b1 b2 r s1 s2 c1 c2 by simp
  next
    case (Inr u)
    have "self t2 = self t1" using s1 s2 by simp
    moreover have "\<forall>method db_model s s'.
           fst (call (db_connector (self t1)) method db_model s)
             = fst (call (db_connector (self t1)) method db_model s')"
      using Cons.prems(2) s1 by simp
    ultimately obtain cs' where
      "fst (for_events d evs t1) = fst (for_events d evs t2)"
      "self (snd (for_events d evs t1)) = self t1"
      "self (snd (for_events d evs t2)) = self t1"
      "calls (snd (for_events d evs t1)) = calls t1 @ cs'"
      "calls (snd (for_events d evs t2)) = calls t2 @ cs'"
      using Cons.IH[of t2 t1] by blast
    then show ?thesis using Inr b1 b2 r s1 c1 c2 by simp
  qed
qed

lemma fetch_cases:
  "(\<exists>e. \<forall>st a lo hi. get_data (api_connector (self st)) a lo hi = r \<longrightarrow>
          fetch_and_transform_events d a lo hi st = (Inl e, st))
 \<or> (\<exists>evs. \<forall>st a lo hi. get_data (api_connector (self st)) a lo hi = r \<longrightarrow>
          fetch_and_transform_events d a lo hi st = for_events d evs st)"
proof (cases r)
  case (Inl e)
  then show ?thesis
    by (intro disjI1 exI[of _ e]) (simp add: fetch_and_transform_events_def)
next
  case response: (Inr response)
  show ?thesis
  proof (cases "py_contains response ''error''")
    case (Inl e)
    then show ?thesis using response
      by (intro disjI1 exI[of _ e]) (simp add: fetch_and_transform_events_def)
  next
    case found: (Inr found)
    show ?thesis
    proof (cases found)
      case True
      show ?thesis
      proof (cases "py_getitem response ''error''")
        case (Inl e)
        then show ?thesis using response found True
          by (intro disjI1 exI[of _ e]) (simp add: fetch_and_transform_events_def)
      next
        case (Inr detail)
        then show ?thesis using response found True
          by (intro disjI1 exI[of _ "ValueError [Lit ''Error fetching events: '', Fmt detail]"])
            (simp add: fetch_and_transform_events_def)
      qed
    next
      case False
      show ?thesis
      proof (cases "py_iter response")
        case (Inl e)
        then show ?thesis using response found False
          by (intro disjI1 exI[of _ e]) (simp add: fetch_and_transform_events_def)
      next
        case (Inr events)
        then show ?thesis using response found False
          by (intro disjI2 exI[of _ events]) (simp add: fetch_and_transform_events_def)
      qed
    qed
  qed
qed

text \<open>
  C8. An invocation of \<open>fetch_and_transform_events\<close> leaves the transformer (its two
  collaborator references) as it was, and two invocations on the same transformer that
  fetch the same response end in the same result and dispatch the same sequence of
  persistence calls, whatever the calls made before and the contents of the store,
  given that whether a persistence call returns or raises does not depend on the store.
\<close>

theorem invocation_keeps_transformer_and_repeats_dispatch:
  assumes "self st2 = self st1"
    and "get_data (api_connector (self st1)) a1 lo1 hi1 = get_data (api_connector (self st1)) a2 lo2 hi2"
    and "\<forall>method db_model s s'.
           fst (call (db_connector (self st1)) method db_model s)
             = fst (call (db_connector (self st1)) method db_model s')"
  shows "self (snd (fetch_and_transform_events d a1 lo1 hi1 st1)) = self st1
       \<and> fst (fetch_and_transform_events d a1 lo1 hi1 st1)
           = fst (fetch_and_transform_events d a2 lo2 hi2 st2)
       \<and> dispatched st1 (snd (fetch_and_transform_events d a1 lo1 hi1 st1))
           = dispatched st2 (snd (fetch_and_transform_events d a2 lo2 hi2 st2))"
proof -
  let ?r = "get_data (api_connector (self st1)) a1 lo1 hi1"
  have r2: "get_data (api_connector (self st2)) a2 lo2 hi2 = ?r"
    using assms(1,2) by simp
  consider (quiet) e where "fetch_and_transform_events d a1 lo1 hi1 st1 = (Inl e, st1)"
      "fetch_and_transform_events d a2 lo2 hi2 st2 = (Inl e, st2)"
    | (loop) evs where "fetch_and_transform_events d a1 lo1 hi1 st1 = for_events d evs st1"
      "fetch_and_transform_events d a2 lo2 hi2 st2 = for_events d evs st2"
    using fetch_cases[of ?r d] r2 by blast
  then show ?thesis
  proof cases
    case quiet
    then show ?thesis by (simp add: dispatched_def)
  next
    case loop
    from for_events_two_runs[OF assms(1,3), of d evs]
    show ?thesis unfolding loop by (auto simp: dispatched_def)
  qed
qed

theorem invocation_keeps_transformer_and_repeats_dispatch_witness:
  "self (snd (fetch_and_transform_events demo_imported ''0x1'' 0 10
          (demo_state (PList [liquidation_event (PDict [])]))))
     = self (demo_state (PList [liquidation_event (PDict [])]))
 \<and> dispatched (demo_state (PList [liquidation_event (PDict [])]))
       (snd (fetch_and_transform_events demo_imported ''0x1'' 0 10
          (demo_state (PList [liquidation_event (PDict [])]))))
     = dispatched
         (snd (fetch_and_transform_events demo_imported ''0x1'' 0 10
            (demo_state (PList [liquidation_event (PDict [])]))))
         (snd (fetch_and_transform_events demo_imported ''0x1'' 0 10
            (snd (fetch_and_transform_events demo_imported ''0x1'' 0 10
               (demo_state (PList [liquidation_event (PDict [])]))))))
 \<and> dispatched (demo_state (PList [liquidation_event (PDict [])]))
       (snd (fetch_and_transform_events demo_imported ''0x1'' 0 10
          (demo_state (PList [liquidation_event (PDict [])]))))
     = [(''create_liquidation_event'', PDict [])]"
proof -
  let ?st1 = "demo_state (PList [liquidation_event (PDict [])])"
  let ?st2 = "snd (fetch_and_transform_events demo_imported ''0x1'' 0 10 ?st1)"
  have same_self: "self ?st2 = self ?st1"
    by (simp add: run_defs demo_defs)
  have same_response: "get_data (api_connector (self ?st1)) ''0x1'' 0 10
                         = get_data (api_connector (self ?st1)) ''0x1'' 0 10"
    by simp
  have outcome: "\<forall>method db_model s s'.
                   fst (call (db_connector (self ?st1)) method db_model s)
                     = fst (call (db_connector (self ?st1)) method db_model s')"
    by (simp add: demo_defs)
  have first: "dispatched ?st1 ?st2 = [(''create_liquidation_event'', PDict [])]"
    by (simp add: dispatched_def run_defs demo_defs)
  show ?thesis
    using invocation_keeps_transformer_and_repeats_dispatch
            [OF same_self same_response outcome, of demo_imported] first
    by simp
qed

section \<open>The registry\<close>

lemma parse_fields_names:
  "parse_fields required kvs = Inr parsed \<Longrightarrow> map fst parsed = map fst required"
  by (induction required arbitrary: parsed)
     (auto split: option.splits if_splits sum.splits)

lemma parse_fields_typed:
  "parse_fields required kvs = Inr parsed \<Longrightarrow>
     list_all2 (\<lambda>field kwarg. has_type (snd field) (snd kwarg)) required parsed"
  by (induction required arbitrary: parsed)
     (auto split: option.splits if_splits sum.splits)

lemma parse_fields_values:
  "parse_fields required kvs = Inr parsed \<Longrightarrow> (name, ty) \<in> set required \<Longrightarrow>
     map_of parsed name = map_of kvs name \<and> (\<exists>v. map_of kvs name = Some v \<and> has_type ty v)"
  by (induction required arbitrary: parsed)
     (auto split: option.splits if_splits sum.splits)

lemma spec_record_accepts_parsed:
  "parse_fields required kvs = Inr parsed \<Longrightarrow> spec_record required parsed = Inr parsed"
  by (simp add: spec_record_def parse_fields_names parse_fields_typed)

lemma spec_parser_accepted:
  "spec_parser required payload = Inr parsed \<Longrightarrow> spec_record required parsed = Inr parsed"
  by (cases payload) (simp_all add: spec_record_accepts_parsed)

text \<open>
  C7. The keys of the registry are distinct, each occurring once: the two event type
  identifiers. Looking either up gives an entry: the parser function, the persistence
  method name and the record class written in the table. With the parsers and record
  classes as the specification describes them, the record class of every entry accepts
  what the parser of that entry returns, field for field, for any fields of the two
  event types.
\<close>

theorem registry_entries_unique_and_complete:
  "distinct (map fst (EVENT_MAPPING d))
 \<and> (\<forall>t \<in> set (map fst (EVENT_MAPPING d)). count_list (map fst (EVENT_MAPPING d)) t = 1)
 \<and> set (map fst (EVENT_MAPPING d))
      = {''zklend::market::Market::AccumulatorsSync'', ''zklend::market::Market::Liquidation''}
 \<and> py_lookup (EVENT_MAPPING d) (PStr ''zklend::market::Market::AccumulatorsSync'')
      = Inr (parse_accumulators_sync_event d, ''create_accumulator_event'', AccumulatorsSyncModel d)
 \<and> py_lookup (EVENT_MAPPING d) (PStr ''zklend::market::Market::Liquidation'')
      = Inr (parse_liquidation_event d, ''create_liquidation_event'', LiquidationModel d)
 \<and> (\<forall>t parser_func method_name model_class payload parsed_data.
       map_of (EVENT_MAPPING (spec_imported accumulators_sync_fields liquidation_fields)) t
         = Some (parser_func, method_name, model_class) \<longrightarrow>
       parser_func payload = Inr parsed_data \<longrightarrow>
       model_class (model_dump (spec_imported accumulators_sync_fields liquidation_fields) parsed_data)
         = Inr parsed_data)"
proof -
  have "\<forall>t parser_func method_name model_class payload parsed_data.
       map_of (EVENT_MAPPING (spec_imported accumulators_sync_fields liquidation_fields)) t
         = Some (parser_func, method_name, model_class) \<longrightarrow>
       parser_func payload = Inr parsed_data \<longrightarrow>
       model_class (model_dump (spec_imported accumulators_sync_fields liquidation_fields) parsed_data)
         = Inr parsed_data"
    by (auto simp: EVENT_MAPPING_def spec_imported_def spec_parser_accepted split: if_splits)
  then show ?thesis
    by (simp add: EVENT_MAPPING_def)
qed

theorem registry_entries_unique_and_complete_witness:
  "distinct (map fst (EVENT_MAPPING demo_imported))
 \<and> count_list (map fst (EVENT_MAPPING demo_imported)) ''zklend::market::Market::Liquidation'' = 1
 \<and> py_lookup (EVENT_MAPPING demo_imported) (PStr ''zklend::market::Market::Liquidation'')
      = Inr (parse_liquidation_event demo_imported, ''create_liquidation_event'',
             LiquidationModel demo_imported)
 \<and> spec_record [(''user'', Text), (''amount'', Amount)]
      [(''user'', PStr ''0x07''), (''amount'', PInt 12)]
      = Inr [(''user'', PStr ''0x07''), (''amount'', PInt 12)]"
proof -
  let ?acc = "[(''token'', Text), (''lending_accumulator'', Amount), (''debt_accumulator'', Amount)]"
  let ?liq = "[(''user'', Text), (''amount'', Amount)]"
  let ?payload = "PDict [(''amount'', PInt 12), (''user'', PStr ''0x07''), (''memo'', PNone)]"
  let ?parsed = "[(''user'', PStr ''0x07''), (''amount'', PInt 12)]"
  have registered: "''zklend::market::Market::Liquidation'' \<in> set (map fst (EVENT_MAPPING demo_imported))"
    by (simp add: EVENT_MAPPING_def)
  have entry: "map_of (EVENT_MAPPING (spec_imported ?acc ?liq)) ''zklend::market::Market::Liquidation''
                 = Some (spec_parser ?liq, ''create_liquidation_event'', spec_record ?liq)"
    by (simp add: EVENT_MAPPING_def spec_imported_def)
  have parses: "spec_parser ?liq ?payload = Inr ?parsed"
    by simp
  have dump: "model_dump (spec_imported ?acc ?liq) ?parsed = ?parsed"
    by (simp add: spec_imported_def)
  from registry_entries_unique_and_complete[of demo_imported ?acc ?liq] registered entry parses
  have "distinct (map fst (EVENT_MAPPING demo_imported))"
    and "count_list (map fst (EVENT_MAPPING demo_imported)) ''zklend::market::Market::Liquidation'' = 1"
    and "py_lookup (EVENT_MAPPING demo_imported) (PStr ''zklend::market::Market::Liquidation'')
          = Inr (parse_liquidation_event demo_imported, ''create_liquidation_event'',
                 LiquidationModel demo_imported)"
    and "spec_record ?liq (model_dump (spec_imported ?acc ?liq) ?parsed) = Inr ?parsed"
    by blast+
  then show ?thesis
    by (simp only: dump simp_thms)
qed

section \<open>Round trip of an AccumulatorsSync payload\<close>

text \<open>
  C6. With the parser and the record class as the specification describes them, for
  any fields of the AccumulatorsSync type: when the parser accepts the payload of an
  AccumulatorsSync event, the loop hands to the persistence method a record that has
  exactly the fields of the type, each with the value the payload has for it, text and
  amounts alike (an amount is the same integer).
\<close>

theorem accumulators_sync_round_trip:
  assumes "spec_parser accumulators_sync_fields (PDict kvs) = Inr parsed_data"
    and "getitem (db_connector (self st)) ''create_accumulator_event'' = Inr meth"
  shows "loop_body (spec_imported accumulators_sync_fields liquidation_fields)
           (accumulators_sync_event (PDict kvs)) st = invoke meth parsed_data st
       \<and> map fst parsed_data = map fst accumulators_sync_fields
       \<and> (\<forall>(name, ty) \<in> set accumulators_sync_fields.
            map_of parsed_data name = map_of kvs name
            \<and> (\<exists>v. map_of kvs name = Some v \<and> has_type ty v))"
proof -
  let ?d = "spec_imported accumulators_sync_fields liquidation_fields"
  have parsed: "parse_fields accumulators_sync_fields kvs = Inr parsed_data"
    using assms(1) by simp
  have built: "AccumulatorsSyncModel ?d (model_dump ?d parsed_data) = Inr parsed_data"
    using parsed by (simp add: spec_imported_def spec_record_accepts_parsed)
  have "loop_body ?d (accumulators_sync_event (PDict kvs)) st = invoke meth parsed_data st"
    unfolding accumulators_sync_event_def
  proof (rule loop_body_known)
    show "map_of [(''key_name'', PStr ''zklend::market::Market::AccumulatorsSync''), (''data'', PDict kvs)]
            ''key_name'' = Some (PStr ''zklend::market::Market::AccumulatorsSync'')"
      by simp
    show "map_of (EVENT_MAPPING ?d) ''zklend::market::Market::AccumulatorsSync''
            = Some (parse_accumulators_sync_event ?d, ''create_accumulator_event'', AccumulatorsSyncModel ?d)"
      by (simp add: EVENT_MAPPING_def)
    show "map_of [(''key_name'', PStr ''zklend::market::Market::AccumulatorsSync''), (''data'', PDict kvs)]
            ''data'' = Some (PDict kvs)"
      by simp
    show "parse_accumulators_sync_event ?d (PDict kvs) = Inr parsed_data"
      using assms(1) by (simp add: spec_imported_def)
    show "AccumulatorsSyncModel ?d (model_dump ?d parsed_data) = Inr parsed_data"
      by (rule built)
    show "getitem (db_connector (self st)) ''create_accumulator_event'' = Inr meth"
      by (rule assms(2))
  qed
  moreover have "map fst parsed_data = map fst accumulators_sync_fields"
    using parsed by (rule parse_fields_names)
  moreover have "\<forall>(name, ty) \<in> set accumulators_sync_fields.
            map_of parsed_data name = map_of kvs name
            \<and> (\<exists>v. map_of kvs name = Some v \<and> has_type ty v)"
    using parse_fields_values[OF parsed] by blast
  ultimately show ?thesis by blast
qed

theorem accumulators_sync_round_trip_witness:
  "loop_body
     (spec_imported [(''token'', Text), (''lending_accumulator'', Amount), (''debt_accumulator'', Amount)]
                    [(''user'', Text), (''amount'', Amount)])
     (accumulators_sync_event
        (PDict [(''token'', PStr ''0x49d3''),
                (''lending_accumulator'', PInt 1000000000000000000000000001),
                (''debt_accumulator'', PInt 1000000000000000000000000007)]))
     (recording_state (PList []))
   = invoke ''create_accumulator_event''
       [(''token'', PStr ''0x49d3''),
        (''lending_accumulator'', PInt 1000000000000000000000000001),
        (''debt_accumulator'', PInt 1000000000000000000000000007)]
       (recording_state (PList []))
 \<and> map_of [(''token'', PStr ''0x49d3''),
            (''lending_accumulator'', PInt 1000000000000000000000000001),
            (''debt_accumulator'', PInt 1000000000000000000000000007)] ''debt_accumulator''
     = Some (PInt 1000000000000000000000000007)"
proof -
  let ?required = "[(''token'', Text), (''lending_accumulator'', Amount), (''debt_accumulator'', Amount)]"
  let ?kvs = "[(''token'', PStr ''0x49d3''),
               (''lending_accumulator'', PInt 1000000000000000000000000001),
               (''debt_accumulator'', PInt 1000000000000000000000000007)]"
  have parsed: "spec_parser ?required (PDict ?kvs) = Inr ?kvs"
    by simp
  have resolves:
    "getitem (db_connector (self (recording_state (PList [])
        :: (string, (string \<times> pyval) list, (string \<times> pyval) list list) state)))
       ''create_accumulator_event'' = Inr ''create_accumulator_event''"
    by (simp add: demo_defs)
  show ?thesis
    using accumulators_sync_round_trip
            [OF parsed resolves, of "[(''user'', Text), (''amount'', Amount)]"]
    by simp
qed

end
